theory Spec2Isabelle
  imports
    Main
    "HOL-Library.Multiset"
    "HOL-Library.Char_ord"
    "HOL-Library.List_Lexorder"
begin

section \<open>The kind catalogue and the context mixin (pets/common/views.py)\<close>

subsection \<open>Data\<close>

text \<open>
  A row of the \<^verbatim>\<open>Kind\<close> table: its primary key and the display name, the column
  \<^verbatim>\<open>kind\<close> that \<^verbatim>\<open>order_by('kind')\<close> sorts on. Names are Python strings; they are
  compared as character lists, lexicographically by character code.
\<close>

record Kind =
  kind_id :: nat
  kind :: string

text \<open>
  \<^verbatim>\<open>Kind.objects.all()\<close> yields every row of the table, \<^verbatim>\<open>.order_by('kind')\<close>
  orders the rows by the \<^verbatim>\<open>kind\<close> column, ascending. A query set is represented by
  the rows it yields.
\<close>

definition objects_all :: "Kind list \<Rightarrow> Kind list" where
  "objects_all kind_table = kind_table"

definition order_by_kind :: "Kind list \<Rightarrow> Kind list" where
  "order_by_kind rows = sort_key kind rows"

text \<open>
  \<^verbatim>\<open>def get_kind_list():
      return models.Kind.objects.all().order_by('kind')\<close>
\<close>

definition get_kind_list :: "Kind list \<Rightarrow> Kind list" where
  "get_kind_list kind_table = order_by_kind (objects_all kind_table)"

subsection \<open>Objects and the render context\<close>

text \<open>
  Every call of \<^verbatim>\<open>get_kind_list()\<close> builds a query set object of its own. The
  Python heap of query set objects is a map from references to the rows of the object,
  with the next unused reference.
\<close>

record pyheap =
  objects :: "nat \<rightharpoonup> Kind list"
  next_ref :: nat

definition new_object :: "Kind list \<Rightarrow> pyheap \<Rightarrow> nat \<times> pyheap" where
  "new_object rows h =
     (next_ref h, h\<lparr>objects := (objects h)(next_ref h \<mapsto> rows), next_ref := Suc (next_ref h)\<rparr>)"

text \<open>
  A value bound in a render context: a reference to a query set object, or any other
  value of the surrounding view.
\<close>

datatype 'a ctx_value = QuerySet nat | Other 'a

type_synonym 'a render_context = "string \<rightharpoonup> 'a ctx_value"

text \<open>
  \<^verbatim>\<open>def get_context_data(self, **kwargs):
      context = super(MeuPetEspecieMixin, self).get_context_data(**kwargs)
      context['kind_lost'] = get_kind_list()
      context['kind_adoption'] = get_kind_list()
      return context\<close>
  The next class of the method resolution order is not fixed by the mixin: its
  \<^verbatim>\<open>get_context_data\<close> is the parameter \<open>super_get_context_data\<close>, and the mapping
  it returns is the base context.
\<close>

definition get_context_data ::
  "('k \<Rightarrow> 'a render_context) \<Rightarrow> 'k \<Rightarrow> Kind list \<Rightarrow> pyheap \<Rightarrow> 'a render_context \<times> pyheap" where
  "get_context_data super_get_context_data kwargs kind_table h =
     (let context = super_get_context_data kwargs;
          (lost, h1) = new_object (get_kind_list kind_table) h;
          context = context(''kind_lost'' \<mapsto> QuerySet lost);
          (adoption, h2) = new_object (get_kind_list kind_table) h1;
          context = context(''kind_adoption'' \<mapsto> QuerySet adoption)
      in (context, h2))"

text \<open>The rows a context binds a key to, through the heap.\<close>

definition bound_rows :: "'a render_context \<times> pyheap \<Rightarrow> string \<Rightarrow> Kind list option" where
  "bound_rows ch key =
     (case fst ch key of
        Some (QuerySet r) \<Rightarrow> objects (snd ch) r
      | _ \<Rightarrow> None)"

subsection \<open>The not-found handler\<close>

text \<open>
  \<^verbatim>\<open>render(request, template_name, context=None)\<close> of the framework answers with the
  named template rendered for the request on the given context, the empty one when the
  argument is omitted.
\<close>

record ('r, 'a) http_response =
  for_request :: 'r
  template_name :: string
  template_context :: "'a render_context"

definition render :: "'r \<Rightarrow> string \<Rightarrow> 'a render_context option \<Rightarrow> ('r, 'a) http_response" where
  "render request name ctx =
     \<lparr>for_request = request, template_name = name,
      template_context = (case ctx of None \<Rightarrow> Map.empty | Some c \<Rightarrow> c)\<rparr>"

text \<open>
  \<^verbatim>\<open>def not_found(request):
      return render(request, 'staticpages/404.html')\<close>
\<close>

definition not_found :: "'r \<Rightarrow> ('r, 'a) http_response" where
  "not_found request = render request ''staticpages/404.html'' None"

section \<open>The pet records (meupet/models.py, meupet/views.py)\<close>

subsection \<open>Data\<close>

text \<open>
  Modelled from the spec: the model classes \<^verbatim>\<open>Pet\<close> and \<^verbatim>\<open>OwnerProfile\<close>
  (meupet/models.py, users/models.py) are not among the sources. The spec enumerates
  four values of the status, which the tests name \<^verbatim>\<open>Pet.MISSING\<close>, \<^verbatim>\<open>Pet.FOUND\<close>,
  \<^verbatim>\<open>Pet.FOR_ADOPTION\<close> and \<^verbatim>\<open>Pet.ADOPTED\<close>. That the status of a record is always
  one of the four is an invariant in the spec, not a typing: the attribute holds the
  value that is written to it, and a value outside the enumeration is \<open>Unlisted\<close>.
\<close>

datatype status = MISSING | FOUND | FOR_ADOPTION | ADOPTED | Unlisted string


text \<open>
  Modelled from the spec: a user account with its identifier, its name, the
  confirmation flag and the optional link to an external profile.
\<close>

record OwnerProfile =
  user_id :: nat
  username :: string
  is_information_confirmed :: bool
  facebook :: "string option"

text \<open>
  Modelled from the spec: a pet record. The owner and the kind are references, kept as
  the identifier of the user and of the kind; the image is the name of the stored file.
\<close>

record Pet =
  pet_id :: nat
  name :: string
  description :: string
  profile_picture :: string
  owner_id :: nat
  pet_kind :: nat
  status :: status

text \<open>
  The tables of the store that the object managers read and write, every one in the
  order of creation.
\<close>

record database =
  users :: "OwnerProfile list"
  kinds :: "Kind list"
  pets :: "Pet list"

text \<open>
  The primary key that the store gives a new row: one more than the greatest key in
  use, so that the first record is \<^verbatim>\<open>/pet/1/\<close>, as the tests expect.
\<close>

definition next_pk :: "nat list \<Rightarrow> nat" where
  "next_pk pks = Suc (fold max pks 0)"

subsection \<open>The two query views of the manager\<close>

text \<open>
  Modelled from the spec: the manager method \<^verbatim>\<open>Pet.objects.get_lost_or_found\<close>
  (meupet/models.py) is not among the sources. It returns all pet records with
  \<open>kind == kindId\<close> and status in \<open>{MISSING, FOUND}\<close>, in creation order.
\<close>

definition get_lost_or_found :: "nat \<Rightarrow> Pet list \<Rightarrow> Pet list" where
  "get_lost_or_found kindId pet_table =
     filter (\<lambda>p. pet_kind p = kindId \<and> status p \<in> set [MISSING, FOUND]) pet_table"

text \<open>
  Modelled from the spec: the manager method \<^verbatim>\<open>Pet.objects.get_for_adoption_adopted\<close>
  (meupet/models.py) is not among the sources. It returns all pet records with
  \<open>kind == kindId\<close> and status in \<open>{FOR_ADOPTION, ADOPTED}\<close>.
\<close>

definition get_for_adoption_adopted :: "nat \<Rightarrow> Pet list \<Rightarrow> Pet list" where
  "get_for_adoption_adopted kindId pet_table =
     filter (\<lambda>p. pet_kind p = kindId \<and> status p \<in> set [FOR_ADOPTION, ADOPTED]) pet_table"

subsection \<open>Create and edit\<close>

text \<open>
  Modelled from the spec: \<^verbatim>\<open>create(name, description, image, owner, kind, status=MISSING)\<close>
  (\<^verbatim>\<open>Pet.objects.create\<close> on the absent model). The status argument may be omitted
  (\<open>None\<close>) and is then \<open>MISSING\<close>; a status that is given is stored as it is given.
  The kind is required to exist; of a call with a
  kind that is not stored the spec says nothing, and the model gives no result there.
  The confirmation of the owner is the duty of the flow that calls create, not of
  create: the test helper creates records for the unconfirmed user.
\<close>

definition create ::
  "string \<Rightarrow> string \<Rightarrow> string \<Rightarrow> OwnerProfile \<Rightarrow> Kind \<Rightarrow> status option \<Rightarrow> database
     \<Rightarrow> (Pet \<times> database) option" where
  "create nm descr img ownr knd st db =
     (if kind_id knd \<notin> set (map kind_id (kinds db)) then None
      else
        let pet = \<lparr>pet_id = next_pk (map pet_id (pets db)), name = nm, description = descr,
                   profile_picture = img, owner_id = user_id ownr, pet_kind = kind_id knd,
                   status = (case st of None \<Rightarrow> MISSING | Some s \<Rightarrow> s)\<rparr>
        in Some (pet, db\<lparr>pets := pets db @ [pet]\<rparr>))"

text \<open>
  Modelled from the spec: the fields an edit supplies. The image is either a new upload
  or the reference of the stored image, submitted again.
\<close>

datatype image_field = NewUpload string | ExistingReference string

text \<open>
  Modelled from the spec: the argument \<^verbatim>\<open>fields\<close> of edit, the name, description,
  kind and image that \<^verbatim>\<open>test_can_edit_pet\<close> posts.
\<close>

record pet_fields =
  f_name :: string
  f_description :: string
  f_kind :: nat
  f_image :: image_field

text \<open>Modelled from the spec: the error taxonomy of its section 7.\<close>

datatype error = ValidationError | AuthorizationError | NotConfirmedError | NotFound

text \<open>
  Modelled from the spec: the pet record that an identifier resolves to, \<open>None\<close> when
  no stored record has it.
\<close>

definition get_pet :: "nat \<Rightarrow> Pet list \<Rightarrow> Pet option" where
  "get_pet petId pet_table = find (\<lambda>p. pet_id p = petId) pet_table"

text \<open>
  Modelled from the spec: on success the edit updates name, description, kind and image
  as supplied; the image is left unchanged if the existing reference is submitted again.
\<close>

definition update_pet :: "pet_fields \<Rightarrow> Pet \<Rightarrow> Pet" where
  "update_pet flds p =
     p\<lparr>name := f_name flds, description := f_description flds, pet_kind := f_kind flds,
       profile_picture :=
         (case f_image flds of NewUpload file \<Rightarrow> file | ExistingReference _ \<Rightarrow> profile_picture p)\<rparr>"

text \<open>
  Modelled from the spec: \<^verbatim>\<open>edit(petId, requester, fields)\<close> (the edit view of
  meupet/views.py is not among the sources). It succeeds only if the requester is the
  owner of the record and fails with \<open>AuthorizationError\<close> otherwise; an identifier
  that resolves to no record is \<open>NotFound\<close>.
\<close>

definition edit :: "nat \<Rightarrow> OwnerProfile \<Rightarrow> pet_fields \<Rightarrow> database \<Rightarrow> error + database" where
  "edit petId requester flds db =
     (case get_pet petId (pets db) of
        None \<Rightarrow> Inl NotFound
      | Some pet \<Rightarrow>
          if user_id requester = owner_id pet
          then Inr (db\<lparr>pets := map (\<lambda>p. if pet_id p = petId then update_pet flds p else p) (pets db)\<rparr>)
          else Inl AuthorizationError)"

subsection \<open>Responses and paths\<close>

text \<open>The two request methods of the interface table of the spec.\<close>

datatype http_method = GET | POST

text \<open>The fields of a submitted form, by name, as the test client posts them.\<close>

type_synonym formdata = "(string \<times> string) list"

text \<open>
  Modelled from the spec: the response of a view of meupet/views.py, a redirect to a
  path, or a page: the template rendered, the path of the form on it, and the field
  values the form shows.
\<close>

datatype response = Redirect string | Render string string formdata

text \<open>
  The decimal numeral of an identifier, as \<^verbatim>\<open>str\<close> and \<^verbatim>\<open>format\<close> write it, and
  the paths of the interface table of the spec, which the tests request. \<open>digit\<close> is
  applied to numbers below ten only.
\<close>

definition digit :: "nat \<Rightarrow> char" where
  "digit d = ''0123456789'' ! d"

fun str_nat :: "nat \<Rightarrow> string" where
  "str_nat n = (if n < 10 then [digit n] else str_nat (n div 10) @ [digit (n mod 10)])"

declare str_nat.simps [simp del]

definition pet_url :: "nat \<Rightarrow> string" where
  "pet_url petId = ''/pet/'' @ str_nat petId @ ''/''"

definition pet_edit_url :: "nat \<Rightarrow> string" where
  "pet_edit_url petId = ''/pet/'' @ str_nat petId @ ''/edit/''"

definition profile_edit_url :: string where
  "profile_edit_url = ''/user/profile/edit/''"

subsection \<open>The edit page\<close>

text \<open>
  Modelled from the spec: the handler of \<^verbatim>\<open>/pet/{id}/edit/\<close> (meupet/views.py is not
  among the sources). A requester who is not the owner is redirected to the detail
  page, on GET and on POST, and nothing is applied. The owner gets the edit form on GET;
  on POST the edit is applied and the response redirects to the detail page. An
  identifier that resolves to no record gives the not-found page.
\<close>

definition edit_view ::
  "http_method \<Rightarrow> nat \<Rightarrow> OwnerProfile \<Rightarrow> pet_fields \<Rightarrow> database \<Rightarrow> response \<times> database" where
  "edit_view method petId requester flds db =
     (case get_pet petId (pets db) of
        None \<Rightarrow> (Render ''staticpages/404.html'' [] [], db)
      | Some pet \<Rightarrow>
          if user_id requester \<noteq> owner_id pet then (Redirect (pet_url petId), db)
          else
            (case method of
               GET \<Rightarrow>
                 (Render ''meupet/edit.html'' (pet_edit_url petId)
                    [(''name'', name pet), (''description'', description pet)], db)
             | POST \<Rightarrow>
                 (case edit petId requester flds db of
                    Inr db' \<Rightarrow> (Redirect (pet_url petId), db')
                  | Inl _ \<Rightarrow> (Redirect (pet_url petId), db))))"

subsection \<open>The registration pages\<close>

text \<open>
  Modelled from the spec: the two registration pages, for a lost pet and for a pet for
  adoption, and their paths.
\<close>

datatype registration = Lost | Adoption

definition registration_path :: "registration \<Rightarrow> string" where
  "registration_path r = (case r of Lost \<Rightarrow> ''/pet/lost/'' | Adoption \<Rightarrow> ''/pet/adoption/'')"

text \<open>
  Modelled from the spec: the handlers of \<^verbatim>\<open>/pet/lost/\<close> and \<^verbatim>\<open>/pet/adoption/\<close>
  (meupet/views.py and meupet/forms.py are not among the sources). On GET an
  unconfirmed user is redirected to the profile-edit page and a confirmed user sees the
  registration form. On POST a submission with missing or invalid fields renders the
  same form again with the submitted values and persists nothing; this holds for the
  unconfirmed user too, as \<^verbatim>\<open>test_incorrect_form_submission_reload_page_with_values\<close>
  submits as the unconfirmed user of \<^verbatim>\<open>setUp\<close> and finds its value on the page. A
  valid submission of an unconfirmed user is redirected to the profile completion
  rather than invoking create. The validation rules of the form are the parameter
  \<open>is_valid\<close>; what follows a valid submission of a confirmed user (the call of create
  and the answer to it) is the parameter \<open>form_valid\<close>.
\<close>

definition register_view ::
  "(formdata \<Rightarrow> bool) \<Rightarrow> (OwnerProfile \<Rightarrow> formdata \<Rightarrow> database \<Rightarrow> response \<times> database)
     \<Rightarrow> registration \<Rightarrow> http_method \<Rightarrow> OwnerProfile \<Rightarrow> formdata \<Rightarrow> database
     \<Rightarrow> response \<times> database" where
  "register_view is_valid form_valid r method requester data db =
     (case method of
        GET \<Rightarrow>
          if is_information_confirmed requester
          then (Render ''meupet/register_pet.html'' (registration_path r) [], db)
          else (Redirect profile_edit_url, db)
      | POST \<Rightarrow>
          if \<not> is_valid data
          then (Render ''meupet/register_pet.html'' (registration_path r) data, db)
          else if \<not> is_information_confirmed requester then (Redirect profile_edit_url, db)
          else form_valid requester data db)"

subsection \<open>The fixtures of the test suite (meupet/tests.py)\<close>

text \<open>
  \<^verbatim>\<open>Kind.objects.get_or_create(kind=kind)\<close>: the stored kind of that name and
  \<open>False\<close>, or a new kind and \<open>True\<close>.
\<close>

definition get_or_create :: "string \<Rightarrow> database \<Rightarrow> (Kind \<times> bool) \<times> database" where
  "get_or_create nm db =
     (case find (\<lambda>k. kind k = nm) (kinds db) of
        Some k \<Rightarrow> ((k, False), db)
      | None \<Rightarrow>
          let k = \<lparr>kind_id = next_pk (map kind_id (kinds db)), kind = nm\<rparr>
          in ((k, True), db\<lparr>kinds := kinds db @ [k]\<rparr>))"

text \<open>\<^verbatim>\<open>OwnerProfile.objects.first()\<close>: the first user, \<open>None\<close> when there is none.\<close>

definition first_user :: "database \<Rightarrow> OwnerProfile option" where
  "first_user db = (case users db of [] \<Rightarrow> None | u # _ \<Rightarrow> Some u)"

text \<open>
  \<^verbatim>\<open>def create_pet(self, kind, name='Pet', status=Pet.MISSING):
      image = get_test_image_file()
      user = OwnerProfile.objects.first()
      kind = Kind.objects.get_or_create(kind=kind)[0]
      return Pet.objects.create(name='Testing ' + name, description='Bla',
                                profile_picture=image, owner=user, kind=kind,
                                status=status)\<close>
  An omitted argument is \<open>None\<close>. Without a user the record has no owner and is not
  created.
\<close>

definition create_pet ::
  "string \<Rightarrow> string option \<Rightarrow> status option \<Rightarrow> database \<Rightarrow> (Pet \<times> database) option" where
  "create_pet knd nm st db =
     (let nm = (case nm of None \<Rightarrow> ''Pet'' | Some n \<Rightarrow> n);
          st = (case st of None \<Rightarrow> MISSING | Some s \<Rightarrow> s);
          img = ''test.png''
      in case first_user db of
           None \<Rightarrow> None
         | Some user \<Rightarrow>
             let (k, db1) = get_or_create knd db
             in create (''Testing '' @ nm) ''Bla'' img user (fst k) (Some st) db1)"

text \<open>
  The store after \<^verbatim>\<open>setUp\<close>: the user \<^verbatim>\<open>admin\<close>, whose information is not
  confirmed (\<^verbatim>\<open>test_should_redirect_if_not_confirmed\<close>), and nothing else.
\<close>

definition admin :: OwnerProfile where
  "admin = \<lparr>user_id = 1, username = ''admin'', is_information_confirmed = False, facebook = None\<rparr>"

definition setUp :: database where
  "setUp = \<lparr>users = [admin], kinds = [], pets = []\<rparr>"

text \<open>
  The record that \<^verbatim>\<open>create_pet\<close> stores with the defaults of its name, as the
  \<open>i\<close>-th record, for the first user and the first kind.
\<close>

definition test_pet :: "nat \<Rightarrow> status \<Rightarrow> Pet" where
  "test_pet i st =
     \<lparr>pet_id = i, name = ''Testing Pet'', description = ''Bla'', profile_picture = ''test.png'',
      owner_id = 1, pet_kind = 1, status = st\<rparr>"

text \<open>
  \<^verbatim>\<open>test_only_owner_can_see_edit_page\<close>: a second user, and the store after
  \<^verbatim>\<open>self.create_pet('Own Pet')\<close>.
\<close>

definition other_user :: OwnerProfile where
  "other_user =
     \<lparr>user_id = 2, username = ''Other User'', is_information_confirmed = False, facebook = None\<rparr>"

definition own_pet_db :: database where
  "own_pet_db =
     \<lparr>users = [admin, other_user], kinds = [\<lparr>kind_id = 1, kind = ''Own Pet''\<rparr>],
      pets = [test_pet 1 MISSING]\<rparr>"

text \<open>The data that \<^verbatim>\<open>test_can_edit_pet\<close> posts; the image is the stored one.\<close>

definition fuzzy_boots :: pet_fields where
  "fuzzy_boots =
     \<lparr>f_name = ''Testing Fuzzy Boots'', f_description = ''My lovely cat'', f_kind = 1,
      f_image = ExistingReference ''test.png''\<rparr>"

text \<open>
  The records of \<^verbatim>\<open>test_manager_lost_found\<close>: two missing pets, a found one and
  one for adoption, all of the first kind. Those of
  \<^verbatim>\<open>test_manager_adoption_adopted\<close>: an adopted pet, a missing one, a found one
  and one for adoption.
\<close>

definition lost_found_pets :: "Pet list" where
  "lost_found_pets =
     [test_pet 1 MISSING, test_pet 2 MISSING, test_pet 3 FOUND, test_pet 4 FOR_ADOPTION]"

definition adoption_pets :: "Pet list" where
  "adoption_pets =
     [test_pet 1 ADOPTED, test_pet 2 MISSING, test_pet 3 FOUND, test_pet 4 FOR_ADOPTION]"

text \<open>
  Instances of the two parameters of \<open>register_view\<close> for the closed examples: a form
  that requires a name that is not empty (the submission of
  \<^verbatim>\<open>test_incorrect_form_submission_reload_page_with_values\<close> has none), and a
  success path that answers with a redirect to the home page.
\<close>

definition name_required :: "formdata \<Rightarrow> bool" where
  "name_required data = (case map_of data ''name'' of None \<Rightarrow> False | Some v \<Rightarrow> v \<noteq> [])"

definition redirect_home :: "OwnerProfile \<Rightarrow> formdata \<Rightarrow> database \<Rightarrow> response \<times> database" where
  "redirect_home requester data db = (Redirect ''/'', db)"

text \<open>
  For the examples of the context mixin: the kinds of \<^verbatim>\<open>test_display_kinds_sidebar\<close>
  in the order of their creation, an empty heap, and a base context that already binds
  \<^verbatim>\<open>kind_lost\<close>.
\<close>

definition goat_cat :: "Kind list" where
  "goat_cat = [\<lparr>kind_id = 1, kind = ''Goat''\<rparr>, \<lparr>kind_id = 2, kind = ''Cat''\<rparr>]"

definition empty_heap :: pyheap where
  "empty_heap = \<lparr>objects = Map.empty, next_ref = 0\<rparr>"

definition stale_base :: "unit \<Rightarrow> nat render_context" where
  "stale_base kwargs = [''title'' \<mapsto> Other 7, ''kind_lost'' \<mapsto> Other 0]"

subsection \<open>The stores that create and edit reach\<close>


section \<open>Properties\<close>

subsection \<open>Auxiliary facts\<close>

lemma str_nat_digit: "n < 10 \<Longrightarrow> str_nat n = [digit n]"
  by (simp add: str_nat.simps [of n])

lemma find_map_update:
  assumes "find (\<lambda>p. pet_id p = i) xs = Some x"
  shows "find (\<lambda>p. pet_id p = i) (map (\<lambda>p. if pet_id p = i then update_pet flds p else p) xs)
         = Some (update_pet flds x)"
  using assms by (induction xs) (auto simp: update_pet_def)

lemma get_kind_list_goat_cat:
  "get_kind_list goat_cat = [\<lparr>kind_id = 2, kind = ''Cat''\<rparr>, \<lparr>kind_id = 1, kind = ''Goat''\<rparr>]"
  by (simp add: get_kind_list_def order_by_kind_def objects_all_def goat_cat_def)

subsection \<open>The scenarios of the test suite on the model\<close>

text \<open>
  \<^verbatim>\<open>self.create_pet('Own Pet')\<close> after \<^verbatim>\<open>setUp\<close> and the creation of the second
  user stores the first record of the first kind, owned by \<^verbatim>\<open>admin\<close>.
\<close>

lemma create_pet_own_pet:
  "create_pet ''Own Pet'' None None (setUp\<lparr>users := [admin, other_user]\<rparr>)
     = Some (test_pet 1 MISSING, own_pet_db)"
  by (simp add: create_pet_def setUp_def admin_def first_user_def get_or_create_def create_def
      next_pk_def own_pet_db_def test_pet_def Let_def)

text \<open>\<^verbatim>\<open>test_manager_lost_found\<close>: three of the four records are lost or found.\<close>

lemma test_manager_lost_found:
  "(case create_pet ''Test'' None None setUp of None \<Rightarrow> None | Some (missing_pet, db1) \<Rightarrow>
    (case create_pet ''Test'' None None db1 of None \<Rightarrow> None | Some (_, db2) \<Rightarrow>
    (case create_pet ''Test'' None (Some FOUND) db2 of None \<Rightarrow> None | Some (_, db3) \<Rightarrow>
    (case create_pet ''Test'' None (Some FOR_ADOPTION) db3 of None \<Rightarrow> None | Some (_, db4) \<Rightarrow>
       Some (pets db4, length (get_lost_or_found (pet_kind missing_pet) (pets db4)))))))
   = Some (lost_found_pets, 3)"
  by (simp add: create_pet_def setUp_def admin_def first_user_def get_or_create_def create_def
      next_pk_def get_lost_or_found_def lost_found_pets_def test_pet_def Let_def)

text \<open>\<^verbatim>\<open>test_manager_adoption_adopted\<close>: two of the four records are for adoption or adopted.\<close>

lemma test_manager_adoption_adopted:
  "(case create_pet ''Test'' None (Some ADOPTED) setUp of None \<Rightarrow> None | Some (adopted_pet, db1) \<Rightarrow>
    (case create_pet ''Test'' None None db1 of None \<Rightarrow> None | Some (_, db2) \<Rightarrow>
    (case create_pet ''Test'' None (Some FOUND) db2 of None \<Rightarrow> None | Some (_, db3) \<Rightarrow>
    (case create_pet ''Test'' None (Some FOR_ADOPTION) db3 of None \<Rightarrow> None | Some (_, db4) \<Rightarrow>
       Some (pets db4, length (get_for_adoption_adopted (pet_kind adopted_pet) (pets db4)))))))
   = Some (adoption_pets, 2)"
  by (simp add: create_pet_def setUp_def admin_def first_user_def get_or_create_def create_def
      next_pk_def get_for_adoption_adopted_def adoption_pets_def test_pet_def Let_def)

text \<open>
  \<^verbatim>\<open>test_can_edit_pet\<close>: the owner posts the new name; the response redirects to
  \<^verbatim>\<open>/pet/1/\<close> and the record carries the new name.
\<close>

lemma test_can_edit_pet:
  "edit_view POST 1 admin fuzzy_boots own_pet_db =
     (Redirect ''/pet/1/'',
      own_pet_db\<lparr>pets := [(test_pet 1 MISSING)\<lparr>name := ''Testing Fuzzy Boots'',
                                                description := ''My lovely cat''\<rparr>]\<rparr>)"
  by (simp add: edit_view_def edit_def get_pet_def own_pet_db_def test_pet_def admin_def
      fuzzy_boots_def update_pet_def pet_url_def str_nat_digit digit_def)

text \<open>
  \<^verbatim>\<open>test_load_data_for_editing_pet\<close>: the owner gets the edit form with the data of
  the record.
\<close>

lemma test_load_data_for_editing_pet:
  "fst (edit_view GET 1 admin flds own_pet_db) =
     Render ''meupet/edit.html'' ''/pet/1/edit/'' [(''name'', ''Testing Pet''), (''description'', ''Bla'')]"
  by (simp add: edit_view_def get_pet_def own_pet_db_def test_pet_def admin_def
      pet_edit_url_def str_nat_digit digit_def)

subsection \<open>The kind catalogue\<close>

text \<open>
  Claim C4. For every collection of stored kinds, \<open>get_kind_list\<close> returns all of them,
  each as often as it is stored (nothing is cut off, and the empty store gives the
  empty sequence), sorted in ascending order of the display name.
\<close>

theorem get_kind_list_all_sorted:
  "mset (get_kind_list kind_table) = mset kind_table
   \<and> length (get_kind_list kind_table) = length kind_table
   \<and> sorted (map kind (get_kind_list kind_table))
   \<and> get_kind_list [] = []"
  by (simp add: get_kind_list_def order_by_kind_def objects_all_def)

subsection \<open>The context mixin\<close>

text \<open>
  Claim C5. For every base context, the context that \<open>get_context_data\<close> returns
  binds \<^verbatim>\<open>kind_lost\<close> and \<^verbatim>\<open>kind_adoption\<close>, each to a query set whose rows are
  those of \<open>get_kind_list\<close>; the two are fetched by a call each and are two objects,
  not one shared object.
\<close>

theorem get_context_data_binds_kind_lists:
  "bound_rows (get_context_data base kwargs kind_table h) ''kind_lost''
     = Some (get_kind_list kind_table)
   \<and> bound_rows (get_context_data base kwargs kind_table h) ''kind_adoption''
     = Some (get_kind_list kind_table)
   \<and> fst (get_context_data base kwargs kind_table h) ''kind_lost''
     = Some (QuerySet (next_ref h))
   \<and> fst (get_context_data base kwargs kind_table h) ''kind_adoption''
     = Some (QuerySet (Suc (next_ref h)))
   \<and> fst (get_context_data base kwargs kind_table h) ''kind_lost''
     \<noteq> fst (get_context_data base kwargs kind_table h) ''kind_adoption''"
  by (simp add: bound_rows_def get_context_data_def new_object_def Let_def)

text \<open>
  Claim C10. The context that \<open>get_context_data\<close> returns agrees with the base context
  on every key other than \<^verbatim>\<open>kind_lost\<close> and \<^verbatim>\<open>kind_adoption\<close>; these two keys are
  bound to the query sets made by this call, with the rows of \<open>get_kind_list\<close>,
  whatever the base context binds them to.
\<close>

theorem get_context_data_frame:
  "(key \<noteq> ''kind_lost'' \<longrightarrow> key \<noteq> ''kind_adoption'' \<longrightarrow>
      fst (get_context_data base kwargs kind_table h) key = base kwargs key)
   \<and> (key = ''kind_lost'' \<or> key = ''kind_adoption'' \<longrightarrow>
        bound_rows (get_context_data base kwargs kind_table h) key = Some (get_kind_list kind_table)
        \<and> (\<exists>r. fst (get_context_data base kwargs kind_table h) key = Some (QuerySet r)
               \<and> next_ref h \<le> r \<and> r < next_ref (snd (get_context_data base kwargs kind_table h))))"
  by (auto simp: bound_rows_def get_context_data_def new_object_def Let_def)

theorem get_context_data_frame_witness:
  "''title'' \<noteq> ''kind_lost'' \<and> ''title'' \<noteq> ''kind_adoption''
   \<and> stale_base () ''kind_lost'' = Some (Other 0)
   \<and> fst (get_context_data stale_base () goat_cat empty_heap) ''title'' = Some (Other 7)
   \<and> bound_rows (get_context_data stale_base () goat_cat empty_heap) ''kind_lost''
       = Some [\<lparr>kind_id = 2, kind = ''Cat''\<rparr>, \<lparr>kind_id = 1, kind = ''Goat''\<rparr>]"
  using get_context_data_frame [of "''title''" stale_base "()" goat_cat empty_heap]
    get_context_data_frame [of "''kind_lost''" stale_base "()" goat_cat empty_heap]
  by (simp add: stale_base_def get_kind_list_goat_cat)

subsection \<open>The not-found handler\<close>

text \<open>
  Claim C9. For every request, \<open>not_found\<close> renders the template
  \<^verbatim>\<open>staticpages/404.html\<close> for that request, on a context with no entry.
\<close>

theorem not_found_renders_404:
  "template_name (not_found request) = ''staticpages/404.html''
   \<and> template_context (not_found request) = Map.empty
   \<and> for_request (not_found request) = request"
  by (simp add: not_found_def render_def)

subsection \<open>The query views of the manager\<close>

text \<open>
  Claim C2. For every kind identifier and every collection of stored pet records,
  \<open>get_lost_or_found\<close> returns exactly the records of that kind whose status is
  \<open>MISSING\<close> or \<open>FOUND\<close>, in the stored order: every record it returns is a stored
  record of the kind and is neither \<open>FOR_ADOPTION\<close> nor \<open>ADOPTED\<close>, and every stored
  record of the kind that is \<open>MISSING\<close> or \<open>FOUND\<close> is returned.
\<close>

theorem get_lost_or_found_exact:
  "get_lost_or_found kindId pet_table =
      filter (\<lambda>p. pet_kind p = kindId \<and> (status p = MISSING \<or> status p = FOUND)) pet_table
   \<and> (\<forall>p \<in> set (get_lost_or_found kindId pet_table).
         p \<in> set pet_table \<and> pet_kind p = kindId \<and> status p \<noteq> FOR_ADOPTION \<and> status p \<noteq> ADOPTED)
   \<and> (\<forall>p \<in> set pet_table. pet_kind p = kindId \<and> (status p = MISSING \<or> status p = FOUND)
         \<longrightarrow> p \<in> set (get_lost_or_found kindId pet_table))"
  by (auto simp: get_lost_or_found_def)

theorem get_lost_or_found_exact_witness:
  "test_pet 3 FOUND \<in> set lost_found_pets
   \<and> pet_kind (test_pet 3 FOUND) = 1
   \<and> test_pet 3 FOUND \<in> set (get_lost_or_found 1 lost_found_pets)
   \<and> status (test_pet 3 FOUND) \<noteq> FOR_ADOPTION \<and> status (test_pet 3 FOUND) \<noteq> ADOPTED
   \<and> length (get_lost_or_found 1 lost_found_pets) = 3"
  using get_lost_or_found_exact [of 1 lost_found_pets]
  by (simp add: lost_found_pets_def test_pet_def)

text \<open>
  Claim C3. For every kind identifier and every collection of stored pet records,
  \<open>get_for_adoption_adopted\<close> returns exactly the records of that kind whose status is
  \<open>FOR_ADOPTION\<close> or \<open>ADOPTED\<close>, in the stored order.
\<close>

theorem get_for_adoption_adopted_exact:
  "get_for_adoption_adopted kindId pet_table =
      filter (\<lambda>p. pet_kind p = kindId \<and> (status p = FOR_ADOPTION \<or> status p = ADOPTED)) pet_table
   \<and> (\<forall>p \<in> set (get_for_adoption_adopted kindId pet_table).
         p \<in> set pet_table \<and> pet_kind p = kindId \<and> status p \<noteq> MISSING \<and> status p \<noteq> FOUND)
   \<and> (\<forall>p \<in> set pet_table. pet_kind p = kindId \<and> (status p = FOR_ADOPTION \<or> status p = ADOPTED)
         \<longrightarrow> p \<in> set (get_for_adoption_adopted kindId pet_table))"
  by (auto simp: get_for_adoption_adopted_def)

theorem get_for_adoption_adopted_exact_witness:
  "test_pet 1 ADOPTED \<in> set adoption_pets
   \<and> pet_kind (test_pet 1 ADOPTED) = 1
   \<and> test_pet 1 ADOPTED \<in> set (get_for_adoption_adopted 1 adoption_pets)
   \<and> status (test_pet 1 ADOPTED) \<noteq> MISSING \<and> status (test_pet 1 ADOPTED) \<noteq> FOUND
   \<and> length (get_for_adoption_adopted 1 adoption_pets) = 2"
  using get_for_adoption_adopted_exact [of 1 adoption_pets]
  by (simp add: adoption_pets_def test_pet_def)

subsection \<open>Editing a record\<close>

text \<open>
  Claim C1. For every identifier of a stored pet record and every requester, the edit
  succeeds if and only if the identifier of the requester is that of the owner of the
  record. For the owner the changes are applied and the response to the POST
  redirects to the detail page. For a requester who is not the owner the store is
  left as it is, and the response, on GET and on POST, is a redirect to the detail
  page \<^verbatim>\<open>/pet/{id}/\<close> and no error page.
\<close>

theorem edit_iff_owner:
  assumes "get_pet petId (pets db) = Some pet"
  shows "((\<exists>db'. edit petId requester flds db = Inr db') \<longleftrightarrow> user_id requester = owner_id pet)
    \<and> (user_id requester = owner_id pet \<longrightarrow>
          (\<exists>db'. edit petId requester flds db = Inr db'
             \<and> get_pet petId (pets db') = Some (update_pet flds pet)
             \<and> edit_view POST petId requester flds db
                 = (Redirect (''/pet/'' @ str_nat petId @ ''/''), db')))
    \<and> (user_id requester \<noteq> owner_id pet \<longrightarrow>
          edit petId requester flds db = Inl AuthorizationError
          \<and> edit_view method petId requester flds db
              = (Redirect (''/pet/'' @ str_nat petId @ ''/''), db))"
  using assms find_map_update [of petId "pets db" pet flds]
  by (simp add: edit_def edit_view_def get_pet_def pet_url_def)

theorem edit_iff_owner_witness:
  "get_pet 1 (pets own_pet_db) = Some (test_pet 1 MISSING)
   \<and> user_id other_user \<noteq> owner_id (test_pet 1 MISSING)
   \<and> edit 1 other_user fuzzy_boots own_pet_db = Inl AuthorizationError
   \<and> edit_view GET 1 other_user fuzzy_boots own_pet_db = (Redirect ''/pet/1/'', own_pet_db)
   \<and> user_id admin = owner_id (test_pet 1 MISSING)
   \<and> (\<exists>db'. edit 1 admin fuzzy_boots own_pet_db = Inr db')"
proof -
  have stored: "get_pet 1 (pets own_pet_db) = Some (test_pet 1 MISSING)"
    by (simp add: get_pet_def own_pet_db_def test_pet_def)
  have other: "user_id other_user \<noteq> owner_id (test_pet 1 MISSING)"
    by (simp add: other_user_def test_pet_def)
  have owner: "user_id admin = owner_id (test_pet 1 MISSING)"
    by (simp add: admin_def test_pet_def)
  show ?thesis
    using stored other owner
      edit_iff_owner [OF stored, of other_user fuzzy_boots GET]
      edit_iff_owner [OF stored, of admin fuzzy_boots GET]
    by (simp add: str_nat_digit digit_def)
qed

subsection \<open>The registration pages\<close>



text \<open>
  Claim C7. For every submission of a registration form with missing or invalid fields,
  the same registration form is rendered again with every submitted value, and the
  store is left as it is: no pet record is persisted.
\<close>

theorem register_view_invalid_form:
  "\<not> is_valid data \<Longrightarrow>
     register_view is_valid form_valid r POST requester data db
       = (Render ''meupet/register_pet.html'' (registration_path r) data, db)"
  by (simp add: register_view_def)

theorem register_view_invalid_form_witness:
  "\<not> name_required [(''description'', ''Test Description'')]
   \<and> register_view name_required redirect_home Lost POST admin
        [(''description'', ''Test Description'')] setUp
       = (Render ''meupet/register_pet.html'' ''/pet/lost/''
            [(''description'', ''Test Description'')], setUp)"
proof -
  have invalid: "\<not> name_required [(''description'', ''Test Description'')]"
    by (simp add: name_required_def)
  show ?thesis
    using invalid
      register_view_invalid_form [of name_required "[(''description'', ''Test Description'')]"
        redirect_home Lost admin setUp]
    by (simp add: registration_path_def)
qed

subsection \<open>The status of a record\<close>





text \<open>
  The invariant is one of the stores that are reached, and of a create that is called
  with a status of the enumeration: a table may hold a record with another status, and
  a create that is given another status stores it.
\<close>

lemma unlisted_not_enumerated:
  "status (test_pet 1 (Unlisted ''XX'')) \<notin> {MISSING, FOUND, FOR_ADOPTION, ADOPTED}"
  by (simp add: test_pet_def)

lemma create_unlisted:
  "create ''Testing Pet'' ''Bla'' ''test.png'' admin \<lparr>kind_id = 1, kind = ''Own Pet''\<rparr>
     (Some (Unlisted ''XX'')) (own_pet_db\<lparr>pets := []\<rparr>)
   = Some (test_pet 1 (Unlisted ''XX''), own_pet_db\<lparr>pets := [test_pet 1 (Unlisted ''XX'')]\<rparr>)"
  by (simp add: create_def own_pet_db_def test_pet_def admin_def next_pk_def Let_def)



end
